theory Spec2Isabelle
  imports Complex_Main
begin

section \<open>Clay Magnet: host data model\<close>

text \<open>
  The addon is a set of command handlers over objects owned by the host application.
  The model keeps the parts of the host state that the handlers read or write.
  Coordinates are Python floats in the source; they are idealised as \<open>real\<close> here
  (no rounding, no NaN), which keeps the comparisons of the proximity scan a linear order.
\<close>

type_synonym obj_id = nat
type_synonym vec2 = "real \<times> real"
type_synonym vec3 = "real \<times> real \<times> real"

text \<open>A 4x4 transform matrix, read as \<open>m row column\<close> for indices below 4.\<close>

type_synonym matrix = "nat \<Rightarrow> nat \<Rightarrow> real"

datatype object_type = ARMATURE | MESH | CURVE | EMPTY | CAMERA | LIGHT

datatype object_mode = OBJECT | EDIT | POSE

datatype exn = KeyError | AttributeError

text \<open>
  The data block of an object used as a custom bone shape: a mesh has \<open>vertices\<close>;
  any other data block has none, and reading \<open>mesh.data.vertices\<close> raises.
\<close>

datatype object_data = MeshData "vec3 list" | NoVertices

record shape_object =
  shape_matrix_world :: matrix
  shape_data :: object_data

text \<open>
  A pose bone: \<open>select\<close> is \<open>bone.bone.select\<close>, \<open>head\<close> is \<open>bone.head\<close>,
  \<open>custom_shape\<close> is \<open>bone.custom_shape\<close> (None when no shape is attached).
\<close>

record pose_bone =
  select :: bool
  head :: vec3
  custom_shape :: "shape_object option"

text \<open>
  A scene object. \<open>bones\<close> is \<open>armature.pose.bones\<close>, a collection keyed by bone
  name (the host keeps bone names unique within an armature); looking up a missing name
  raises KeyError.
\<close>

record object =
  name :: string
  obj_type :: object_type
  mode :: object_mode
  matrix_world :: matrix
  bones :: "string \<rightharpoonup> pose_bone"

datatype report_type = ERROR | WARNING | INFO

datatype status = FINISHED | CANCELLED

text \<open>The lines the handlers print, one constructor per \<open>print\<close> call of the source.\<close>

datatype log_line =
    Tagged string string
  | Untagged string string
  | Showing_only_tagged string
  | Flipped string
  | Got_custom_shape string vec3
  | Custom_shape_messed_up string exn
  | Skipped string exn
  | Picked string bool

record CLAYMAGNET_Preferences =
  hitbox_size :: real
  restrict_pose_mode :: bool

text \<open>
  The state the handlers run against.
  \<^item> \<open>objects\<close>: the scene objects, by identity;
  \<^item> \<open>active\<close>: \<open>context.object\<close>, which is \<open>context.view_layer.objects.active\<close>;
  \<^item> \<open>selected_objects\<close>: \<open>context.selected_objects\<close>;
  \<^item> \<open>selected_pose_bones\<close>: the names of \<open>context.selected_pose_bones\<close>, which the
    host computes and which is None outside pose mode;
  \<^item> \<open>tagged_bones\<close>: the module-level dict from armature identity to a set of names;
  \<^item> \<open>preferences\<close>: \<open>context.preferences.addons[__name__].preferences\<close>;
  \<^item> \<open>clay_magnet_gizmo_user\<close>: the per-scene flag;
  \<^item> \<open>location_3d_to_region_2d\<close>: the call
    \<open>bpy_extras.view3d_utils.location_3d_to_region_2d(region, rv3d, p)\<close> for the current
    region and view. The source imports the package \<open>bpy_extras\<close> only, so the call
    raises where the host has not loaded the submodule \<open>view3d_utils\<close> (Inl); where it
    is loaded the result is the screen position, or None when the point cannot be
    projected;
  \<^item> \<open>reports\<close>: the messages passed to \<open>self.report\<close>;
  \<^item> \<open>translate_invoked\<close>: how many times \<open>bpy.ops.transform.translate\<close> was started;
  \<^item> \<open>stdout\<close>: the printed lines.
\<close>

record world =
  objects :: "obj_id \<Rightarrow> object"
  active :: "obj_id option"
  selected_objects :: "obj_id list"
  selected_pose_bones :: "string list option"
  tagged_bones :: "obj_id \<rightharpoonup> string set"
  preferences :: CLAYMAGNET_Preferences
  clay_magnet_gizmo_user :: bool
  location_3d_to_region_2d :: "vec3 \<Rightarrow> exn + vec2 option"
  reports :: "(report_type \<times> string) list"
  translate_invoked :: nat
  stdout :: "log_line list"

text \<open>\<open>self.report({'ERROR'}, msg); return {'CANCELLED'}\<close>\<close>

definition cancel :: "string \<Rightarrow> world \<Rightarrow> world \<times> status" where
  "cancel msg w = (w\<lparr>reports := reports w @ [(ERROR, msg)]\<rparr>, CANCELLED)"

text \<open>\<open>context.selected_pose_bones or []\<close>\<close>

definition selected_or_empty :: "world \<Rightarrow> string list" where
  "selected_or_empty w = (case selected_pose_bones w of None \<Rightarrow> [] | Some bs \<Rightarrow> bs)"

section \<open>Tag, untag and filter commands\<close>

text \<open>The loop of the tag command over the selected bones: \<open>set.add\<close> of each name.\<close>

primrec tag_loop :: "string list \<Rightarrow> string set \<Rightarrow> string set" where
  "tag_loop [] S = S"
| "tag_loop (b # bs) S = tag_loop bs (insert b S)"

text \<open>
  \<open>CLAYMAGNET_OT_tag_bone.execute\<close>. The entry of the armature is created empty when it
  is absent, then every selected name is added to it.
\<close>

definition tag_bone_execute :: "world \<Rightarrow> world \<times> status" where
  "tag_bone_execute w =
     (case active w of
        None \<Rightarrow> cancel ''Select an armature first!'' w
      | Some armature \<Rightarrow>
          if obj_type (objects w armature) \<noteq> ARMATURE
          then cancel ''Select an armature first!'' w
          else
            let entry = (case tagged_bones w armature of None \<Rightarrow> {} | Some S \<Rightarrow> S);
                sel = selected_or_empty w
            in (w\<lparr>tagged_bones := (tagged_bones w)(armature \<mapsto> tag_loop sel entry),
                   stdout := stdout w @ map (\<lambda>b. Tagged b (name (objects w armature))) sel\<rparr>,
                FINISHED))"

text \<open>The loop of the untag command: \<open>set.discard\<close> of each name.\<close>

primrec untag_loop :: "string list \<Rightarrow> string set \<Rightarrow> string set" where
  "untag_loop [] S = S"
| "untag_loop (b # bs) S = untag_loop bs (S - {b})"

text \<open>\<open>CLAYMAGNET_OT_untag_bone.execute\<close>\<close>

definition untag_bone_execute :: "world \<Rightarrow> world \<times> status" where
  "untag_bone_execute w =
     (case active w of
        None \<Rightarrow> cancel ''Need an armature, buddy!'' w
      | Some armature \<Rightarrow>
          if obj_type (objects w armature) \<noteq> ARMATURE
          then cancel ''Need an armature, buddy!'' w
          else
            (case tagged_bones w armature of
               None \<Rightarrow> (w, FINISHED)
             | Some S \<Rightarrow>
                 let sel = selected_or_empty w
                 in (w\<lparr>tagged_bones := (tagged_bones w)(armature \<mapsto> untag_loop sel S),
                        stdout := stdout w @ map (\<lambda>b. Untagged b (name (objects w armature))) sel\<rparr>,
                     FINISHED)))"

text \<open>
  The loop of the filter command over \<open>armature.pose.bones\<close>: each bone's selection flag
  becomes the membership of its name in the tag set.
\<close>

definition select_tagged :: "string set \<Rightarrow> (string \<rightharpoonup> pose_bone) \<Rightarrow> (string \<rightharpoonup> pose_bone)" where
  "select_tagged S bs = (\<lambda>n. map_option (\<lambda>b. b\<lparr>select := (n \<in> S)\<rparr>) (bs n))"

definition set_bones :: "obj_id \<Rightarrow> (string \<rightharpoonup> pose_bone) \<Rightarrow> world \<Rightarrow> world" where
  "set_bones a bs w = w\<lparr>objects := (objects w)(a := (objects w a)\<lparr>bones := bs\<rparr>)\<rparr>"

text \<open>\<open>CLAYMAGNET_OT_find_tagged.execute\<close>\<close>

definition find_tagged_execute :: "world \<Rightarrow> world \<times> status" where
  "find_tagged_execute w =
     (case active w of
        None \<Rightarrow> cancel ''Pick an armature first!'' w
      | Some armature \<Rightarrow>
          if obj_type (objects w armature) \<noteq> ARMATURE
          then cancel ''Pick an armature first!'' w
          else
            (case tagged_bones w armature of
               None \<Rightarrow> (w, FINISHED)
             | Some S \<Rightarrow>
                 ((set_bones armature (select_tagged S (bones (objects w armature))) w)
                    \<lparr>stdout := stdout w @ [Showing_only_tagged (name (objects w armature))]\<rparr>,
                  FINISHED)))"

text \<open>Whether a name is tagged for an armature: the armature has an entry holding it.\<close>

definition is_tagged :: "world \<Rightarrow> obj_id \<Rightarrow> string \<Rightarrow> bool" where
  "is_tagged w a n = (case tagged_bones w a of None \<Rightarrow> False | Some S \<Rightarrow> n \<in> S)"

text \<open>Whether the bone of that name exists in the armature and is selected.\<close>

definition bone_selected :: "world \<Rightarrow> obj_id \<Rightarrow> string \<Rightarrow> bool" where
  "bone_selected w a n = (case bones (objects w a) n of None \<Rightarrow> False | Some b \<Rightarrow> select b)"

section \<open>Switch to pose mode\<close>

text \<open>
  \<open>bpy.ops.object.mode_set(mode='POSE')\<close> on the active object \<open>a\<close>: a host
  operator, modelled by its effect on the object's mode.
\<close>

definition mode_set_POSE :: "obj_id \<Rightarrow> world \<Rightarrow> world" where
  "mode_set_POSE a w = w\<lparr>objects := (objects w)(a := (objects w a)\<lparr>mode := POSE\<rparr>)\<rparr>"

primrec switch_loop :: "obj_id list \<Rightarrow> world \<Rightarrow> world" where
  "switch_loop [] w = w"
| "switch_loop (armature # rest) w =
     switch_loop rest
       (let w1 = mode_set_POSE armature (w\<lparr>active := Some armature\<rparr>)
        in w1\<lparr>stdout := stdout w1 @ [Flipped (name (objects w1 armature))]\<rparr>)"

text \<open>\<open>CLAYMAGNET_OT_switch_pose_mode.execute\<close>\<close>

definition switch_pose_mode_execute :: "world \<Rightarrow> world \<times> status" where
  "switch_pose_mode_execute w =
     (let armatures = filter (\<lambda>obj. obj_type (objects w obj) = ARMATURE) (selected_objects w)
      in if armatures = [] then cancel ''Select some armatures first!'' w
         else (switch_loop armatures w, FINISHED))"

section \<open>Proximity pick\<close>

record event =
  mouse_region_x :: int
  mouse_region_y :: int
  shift :: bool

subsection \<open>Vector arithmetic of the host\<close>

definition vec3_add :: "vec3 \<Rightarrow> vec3 \<Rightarrow> vec3" where
  "vec3_add u v = (case u of (a, b, c) \<Rightarrow> case v of (x, y, z) \<Rightarrow> (a + x, b + y, c + z))"

definition vec3_div :: "vec3 \<Rightarrow> real \<Rightarrow> vec3" where
  "vec3_div u k = (case u of (a, b, c) \<Rightarrow> (a / k, b / k, c / k))"

definition vec2_sub :: "vec2 \<Rightarrow> vec2 \<Rightarrow> vec2" where
  "vec2_sub u v = (case u of (a, b) \<Rightarrow> case v of (x, y) \<Rightarrow> (a - x, b - y))"

text \<open>\<open>Vector.length\<close>: the Euclidean norm.\<close>

definition vec2_length :: "vec2 \<Rightarrow> real" where
  "vec2_length u = (case u of (a, b) \<Rightarrow> sqrt (a * a + b * b))"

text \<open>\<open>A @ B\<close> on 4x4 matrices.\<close>

definition mat_mul :: "matrix \<Rightarrow> matrix \<Rightarrow> matrix" where
  "mat_mul A B = (\<lambda>i j. A i 0 * B 0 j + A i 1 * B 1 j + A i 2 * B 2 j + A i 3 * B 3 j)"

text \<open>\<open>M @ v\<close> for a 4x4 matrix and a 3D vector: the vector is extended by 1.\<close>

definition mat_vec :: "matrix \<Rightarrow> vec3 \<Rightarrow> vec3" where
  "mat_vec M v =
     (case v of (x, y, z) \<Rightarrow>
        (M 0 0 * x + M 0 1 * y + M 0 2 * z + M 0 3,
         M 1 0 * x + M 1 1 * y + M 1 2 * z + M 1 3,
         M 2 0 * x + M 2 1 * y + M 2 2 * z + M 2 3))"

subsection \<open>The anchor point of a candidate\<close>

text \<open>
  The list comprehension over \<open>mesh.data.vertices\<close>; it raises when the shape's data
  block has no vertices.
\<close>

definition world_vertices :: "object \<Rightarrow> shape_object \<Rightarrow> exn + vec3 list" where
  "world_vertices armature mesh =
     (case shape_data mesh of
        NoVertices \<Rightarrow> Inl AttributeError
      | MeshData vs \<Rightarrow>
          Inr (map (\<lambda>co. mat_vec (mat_mul (matrix_world armature) (shape_matrix_world mesh)) co) vs))"

text \<open>
  \<open>bone_center\<close> after the inner \<open>try\<close>: the head of the bone, replaced by the centroid
  of the custom shape when one is attached, readable and not empty. An exception of the
  inner block is caught there and printed; \<open>bone_center\<close> is then still the head.
\<close>

definition bone_center :: "object \<Rightarrow> string \<Rightarrow> pose_bone \<Rightarrow> vec3 \<times> log_line list" where
  "bone_center armature bone_name bone =
     (case custom_shape bone of
        None \<Rightarrow> (head bone, [])
      | Some mesh \<Rightarrow>
          (case world_vertices armature mesh of
             Inl e \<Rightarrow> (head bone, [Custom_shape_messed_up bone_name e])
           | Inr verts \<Rightarrow>
               if verts \<noteq> []
               then (let c = vec3_div (foldl vec3_add (0, 0, 0) verts) (real (length verts))
                     in (c, [Got_custom_shape bone_name c]))
               else (head bone, [])))"

subsection \<open>The scan over the tagged names\<close>

text \<open>
  The variables of the loop. \<open>closest_dist\<close> starts as \<open>float('inf')\<close>, written None.
\<close>

record scan_state =
  closest_bone :: "string option"
  closest_dist :: "real option"
  printed :: "log_line list"

definition scan_init :: scan_state where
  "scan_init = \<lparr>closest_bone = None, closest_dist = None, printed = []\<rparr>"

text \<open>\<open>dist < closest_dist\<close>\<close>

definition below :: "real \<Rightarrow> real option \<Rightarrow> bool" where
  "below d cd = (case cd of None \<Rightarrow> True | Some c \<Rightarrow> d < c)"

text \<open>
  One iteration of the loop, the outer \<open>try\<close> included. A name that is not a bone of
  the armature raises KeyError, and the projection call may raise; the outer handler
  prints either exception, and the candidate is skipped.
\<close>

definition scan_step :: "world \<Rightarrow> object \<Rightarrow> vec2 \<Rightarrow> string \<Rightarrow> scan_state \<Rightarrow> scan_state" where
  "scan_step w armature mouse_pos bone_name st =
     (case bones armature bone_name of
        None \<Rightarrow> st\<lparr>printed := printed st @ [Skipped bone_name KeyError]\<rparr>
      | Some bone \<Rightarrow>
          (case bone_center armature bone_name bone of
             (center, out) \<Rightarrow>
               (let st1 = st\<lparr>printed := printed st @ out\<rparr>
                in case location_3d_to_region_2d w center of
                     Inl e \<Rightarrow> st1\<lparr>printed := printed st1 @ [Skipped bone_name e]\<rparr>
                   | Inr None \<Rightarrow> st1
                   | Inr (Some screen_pos) \<Rightarrow>
                       (let dist = vec2_length (vec2_sub mouse_pos screen_pos)
                        in if dist < hitbox_size (preferences w) \<and> below dist (closest_dist st1)
                           then st1\<lparr>closest_dist := Some dist, closest_bone := Some bone_name\<rparr>
                           else st1))))"

primrec scan :: "world \<Rightarrow> object \<Rightarrow> vec2 \<Rightarrow> string list \<Rightarrow> scan_state \<Rightarrow> scan_state" where
  "scan w armature mouse_pos [] st = st"
| "scan w armature mouse_pos (bone_name # rest) st =
     scan w armature mouse_pos rest (scan_step w armature mouse_pos bone_name st)"

definition mouse_pos_of :: "event \<Rightarrow> vec2" where
  "mouse_pos_of ev = (real_of_int (mouse_region_x ev), real_of_int (mouse_region_y ev))"

text \<open>
  The first half of \<open>invoke\<close>. A Python set yields its elements in an order the language
  leaves open; \<open>iter\<close> is that order, a parameter of the model.
\<close>

definition find_closest ::
  "(string set \<Rightarrow> string list) \<Rightarrow> event \<Rightarrow> world \<Rightarrow> obj_id \<Rightarrow> scan_state" where
  "find_closest iter ev w armature =
     (case tagged_bones w armature of
        None \<Rightarrow> scan_init
      | Some S \<Rightarrow> scan w (objects w armature) (mouse_pos_of ev) (iter S) scan_init)"

subsection \<open>Applying the pick\<close>

text \<open>\<open>bone.bone.select = True\<close>\<close>

definition select_bone :: "string \<Rightarrow> (string \<rightharpoonup> pose_bone) \<Rightarrow> (string \<rightharpoonup> pose_bone)" where
  "select_bone n bs = bs(n := map_option (\<lambda>b. b\<lparr>select := True\<rparr>) (bs n))"

text \<open>The loop that clears the flag of every bone other than the chosen one.\<close>

definition deselect_others :: "string \<Rightarrow> (string \<rightharpoonup> pose_bone) \<Rightarrow> (string \<rightharpoonup> pose_bone)" where
  "deselect_others chosen bs =
     (\<lambda>n. if n \<noteq> chosen then map_option (\<lambda>b. b\<lparr>select := False\<rparr>) (bs n) else bs n)"

text \<open>\<open>context.view_layer.objects.active = armature; bpy.ops.transform.translate(...)\<close>\<close>

definition start_translate :: "obj_id \<Rightarrow> world \<Rightarrow> world" where
  "start_translate armature w =
     w\<lparr>active := Some armature, translate_invoked := Suc (translate_invoked w)\<rparr>"

text \<open>The second half of \<open>invoke\<close>, from \<open>if closest_bone:\<close>.\<close>

definition apply_pick :: "event \<Rightarrow> obj_id \<Rightarrow> string option \<Rightarrow> world \<Rightarrow> world" where
  "apply_pick ev armature closest w =
     (case closest of
        None \<Rightarrow> w
      | Some bone \<Rightarrow>
          (let w1 = set_bones armature (select_bone bone (bones (objects w armature))) w;
               w2 = (if \<not> shift ev
                     then (let w3 = set_bones armature
                                      (deselect_others bone (bones (objects w1 armature))) w1
                           in if \<not> clay_magnet_gizmo_user w3
                              then start_translate armature w3 else w3)
                     else w1)
           in w2\<lparr>stdout := stdout w2 @ [Picked bone (shift ev)]\<rparr>))"

text \<open>
  \<open>CLAYMAGNET_OT_select_transform.poll\<close>: the host runs \<open>invoke\<close> only where it holds.
\<close>

definition select_transform_poll :: "world \<Rightarrow> bool" where
  "select_transform_poll w =
     (case active w of
        None \<Rightarrow> False
      | Some a \<Rightarrow> obj_type (objects w a) = ARMATURE \<and> mode (objects w a) = POSE)"

text \<open>
  \<open>CLAYMAGNET_OT_select_transform.invoke\<close>. With no active object the registry lookup
  fails, nothing is scanned and nothing is chosen.
\<close>

definition select_transform_invoke ::
  "(string set \<Rightarrow> string list) \<Rightarrow> event \<Rightarrow> world \<Rightarrow> world \<times> status" where
  "select_transform_invoke iter ev w =
     (case active w of
        None \<Rightarrow> (w, FINISHED)
      | Some armature \<Rightarrow>
          (let st = find_closest iter ev w armature
           in (apply_pick ev armature (closest_bone st) (w\<lparr>stdout := stdout w @ printed st\<rparr>),
               FINISHED)))"

text \<open>
  The projected screen distance of a tagged name, as the scan computes it: None when
  the name is not a bone of the armature, or the projection of its anchor raises or
  yields no point.
\<close>

definition screen_dist :: "world \<Rightarrow> obj_id \<Rightarrow> event \<Rightarrow> string \<Rightarrow> real option" where
  "screen_dist w a ev n =
     (case bones (objects w a) n of
        None \<Rightarrow> None
      | Some bone \<Rightarrow>
          (case location_3d_to_region_2d w (fst (bone_center (objects w a) n bone)) of
             Inl e \<Rightarrow> None
           | Inr None \<Rightarrow> None
           | Inr (Some screen_pos) \<Rightarrow>
               Some (vec2_length (vec2_sub (mouse_pos_of ev) screen_pos))))"

text \<open>The bone the scan has chosen when \<open>invoke\<close> reaches \<open>if closest_bone:\<close>.\<close>

definition chosen_bone :: "(string set \<Rightarrow> string list) \<Rightarrow> event \<Rightarrow> world \<Rightarrow> string option" where
  "chosen_bone iter ev w =
     (case active w of None \<Rightarrow> None | Some a \<Rightarrow> closest_bone (find_closest iter ev w a))"

text \<open>A name whose projected distance exists and is below the hitbox radius.\<close>

definition in_reach :: "world \<Rightarrow> obj_id \<Rightarrow> event \<Rightarrow> string \<Rightarrow> bool" where
  "in_reach w a ev n =
     (case screen_dist w a ev n of None \<Rightarrow> False | Some d \<Rightarrow> d < hitbox_size (preferences w))"

text \<open>
  The invariant of the scan after the names \<open>seen\<close>: either nothing is chosen and no
  seen name is in reach, or the chosen name is a seen one in reach whose distance is the
  recorded one and is minimal among the seen names that project.
\<close>

definition nearest_so_far :: "world \<Rightarrow> obj_id \<Rightarrow> event \<Rightarrow> string set \<Rightarrow> scan_state \<Rightarrow> bool" where
  "nearest_so_far w a ev seen st =
     (case closest_bone st of
        None \<Rightarrow> closest_dist st = None \<and> (\<forall>m \<in> seen. \<not> in_reach w a ev m)
      | Some n \<Rightarrow>
          n \<in> seen \<and>
          (\<exists>d. screen_dist w a ev n = Some d \<and> closest_dist st = Some d \<and>
               d < hitbox_size (preferences w) \<and>
               (\<forall>m \<in> seen. \<forall>e. screen_dist w a ev m = Some e \<longrightarrow> d \<le> e)))"

section \<open>Preferences\<close>

text \<open>
  The annotations of the class \<open>CLAYMAGNET_Preferences\<close>, in the order of the source,
  and the properties its \<open>draw\<close> method lays out.
\<close>

datatype property =
    FloatProperty string string real real real
  | BoolProperty string string bool

definition CLAYMAGNET_Preferences_annotations :: "(string \<times> property) list" where
  "CLAYMAGNET_Preferences_annotations =
     [(''hitbox_size'',
       FloatProperty ''Hitbox Size'' ''Pixel radius for bone hover detection'' 50 10 100),
      (''restrict_pose_mode'',
       BoolProperty ''Restrict Panel to Pose Mode'' ''Show panel only in Pose Mode'' False)]"

definition CLAYMAGNET_Preferences_draw :: "string list" where
  "CLAYMAGNET_Preferences_draw = [''hitbox_size'', ''restrict_pose_mode'']"

section \<open>Example states\<close>

text \<open>A rig with three bones beside a mesh object, seen through an orthographic top view.\<close>

definition identity_matrix :: matrix where
  "identity_matrix = (\<lambda>i j. if i = j then 1 else 0)"

definition spine :: pose_bone where
  "spine = \<lparr>select = True, head = (0, 0, 0), custom_shape = None\<rparr>"

definition hand :: pose_bone where
  "hand = \<lparr>select = False, head = (30, 0, 0), custom_shape = None\<rparr>"

text \<open>An empty object used as a custom shape: its data block has no vertices.\<close>

definition crate :: shape_object where
  "crate = \<lparr>shape_matrix_world = identity_matrix, shape_data = NoVertices\<rparr>"

definition foot :: pose_bone where
  "foot = \<lparr>select = False, head = (- 20, 0, 0), custom_shape = Some crate\<rparr>"

definition rig :: object where
  "rig = \<lparr>name = ''Rig'', obj_type = ARMATURE, mode = POSE, matrix_world = identity_matrix,
          bones = [''spine'' \<mapsto> spine, ''hand'' \<mapsto> hand, ''foot'' \<mapsto> foot]\<rparr>"

definition cube :: object where
  "cube = \<lparr>name = ''Cube'', obj_type = MESH, mode = OBJECT, matrix_world = identity_matrix,
           bones = Map.empty\<rparr>"

definition flat_view :: "vec3 \<Rightarrow> exn + vec2 option" where
  "flat_view p = (case p of (x, y, z) \<Rightarrow> Inr (if z < 0 then None else Some (x, y)))"

text \<open>The projection on a host that has not loaded \<open>bpy_extras.view3d_utils\<close>.\<close>

definition unloaded_view :: "vec3 \<Rightarrow> exn + vec2 option" where
  "unloaded_view p = Inl AttributeError"

definition studio :: world where
  "studio = \<lparr>objects = (\<lambda>i. if i = 0 then rig else cube), active = Some 0,
             selected_objects = [0], selected_pose_bones = Some [''spine''],
             tagged_bones = Map.empty,
             preferences = \<lparr>hitbox_size = 50, restrict_pose_mode = False\<rparr>,
             clay_magnet_gizmo_user = False, location_3d_to_region_2d = flat_view,
             reports = [], translate_invoked = 0, stdout = []\<rparr>"

section \<open>Auxiliary facts\<close>

lemmas studio_simps = studio_def rig_def cube_def spine_def hand_def foot_def crate_def

lemma tag_loop_set: "tag_loop bs S = S \<union> set bs"
  by (induction bs arbitrary: S) auto

lemma untag_loop_set: "untag_loop bs S = S - set bs"
  by (induction bs arbitrary: S) auto

lemma is_tagged_tag:
  "active w = Some a \<Longrightarrow> obj_type (objects w a) = ARMATURE \<Longrightarrow>
   is_tagged (fst (tag_bone_execute w)) a n = (is_tagged w a n \<or> n \<in> set (selected_or_empty w))"
  by (auto simp: tag_bone_execute_def is_tagged_def tag_loop_set Let_def split: option.splits)

lemma is_tagged_untag:
  "active w = Some a \<Longrightarrow> obj_type (objects w a) = ARMATURE \<Longrightarrow>
   is_tagged (fst (untag_bone_execute w)) a n = (is_tagged w a n \<and> n \<notin> set (selected_or_empty w))"
  by (auto simp: untag_bone_execute_def is_tagged_def untag_loop_set Let_def split: option.splits)

lemma tag_frame:
  "active (fst (tag_bone_execute w)) = active w \<and>
   objects (fst (tag_bone_execute w)) = objects w \<and>
   selected_pose_bones (fst (tag_bone_execute w)) = selected_pose_bones w"
  by (auto simp: tag_bone_execute_def cancel_def Let_def split: option.splits)

subsection \<open>The scan keeps the nearest candidate in reach\<close>

lemma vec2_length_x: "vec2_length (x, 0) = \<bar>x\<bar>"
  by (simp add: vec2_length_def)

lemma scan_step_closest:
  "closest_bone (scan_step w (objects w a) (mouse_pos_of ev) n st)
     = (case screen_dist w a ev n of
          None \<Rightarrow> closest_bone st
        | Some d \<Rightarrow> if d < hitbox_size (preferences w) \<and> below d (closest_dist st)
                    then Some n else closest_bone st)"
  by (simp add: scan_step_def screen_dist_def Let_def split: option.splits prod.splits sum.splits)

lemma scan_step_dist:
  "closest_dist (scan_step w (objects w a) (mouse_pos_of ev) n st)
     = (case screen_dist w a ev n of
          None \<Rightarrow> closest_dist st
        | Some d \<Rightarrow> if d < hitbox_size (preferences w) \<and> below d (closest_dist st)
                    then Some d else closest_dist st)"
  by (simp add: scan_step_def screen_dist_def Let_def split: option.splits prod.splits sum.splits)

lemma nearest_step:
  assumes "nearest_so_far w a ev seen st"
  shows "nearest_so_far w a ev (insert n seen) (scan_step w (objects w a) (mouse_pos_of ev) n st)"
  using assms
  unfolding nearest_so_far_def scan_step_closest scan_step_dist in_reach_def below_def
  by (auto split: option.splits if_splits) 

lemma nearest_scan:
  "nearest_so_far w a ev seen st \<Longrightarrow>
   nearest_so_far w a ev (seen \<union> set xs) (scan w (objects w a) (mouse_pos_of ev) xs st)"
proof (induction xs arbitrary: seen st)
  case Nil
  then show ?case by simp
next
  case (Cons x xs)
  from Cons.IH [OF nearest_step [OF Cons.prems, of x]] show ?case by simp
qed

lemma nearest_init: "nearest_so_far w a ev {} scan_init"
  by (simp add: nearest_so_far_def scan_init_def)

lemma nearest_find_closest:
  "tagged_bones w a = Some S \<Longrightarrow> nearest_so_far w a ev (set (iter S)) (find_closest iter ev w a)"
  using nearest_scan [OF nearest_init, of w a ev "iter S"]
  by (simp add: find_closest_def)


lemma chosen_exists:
  assumes "active w = Some a" and "chosen_bone iter ev w = Some n"
  shows "\<exists>b. bones (objects w a) n = Some b"
proof -
  from assms have c: "closest_bone (find_closest iter ev w a) = Some n"
    by (simp add: chosen_bone_def)
  then obtain S where S: "tagged_bones w a = Some S"
    by (cases "tagged_bones w a") (simp_all add: find_closest_def scan_init_def)
  from nearest_find_closest [OF S, of ev iter] c
  obtain d where "screen_dist w a ev n = Some d"
    by (auto simp: nearest_so_far_def)
  then show ?thesis
    by (auto simp: screen_dist_def split: option.splits)
qed

lemma invoke_unfold:
  "active w = Some a \<Longrightarrow>
   select_transform_invoke iter ev w
     = (apply_pick ev a (chosen_bone iter ev w)
          (w\<lparr>stdout := stdout w @ printed (find_closest iter ev w a)\<rparr>), FINISHED)"
  by (simp add: select_transform_invoke_def chosen_bone_def Let_def)

lemma nothing_in_reach_chosen:
  assumes "active w = Some a"
    and "\<forall>S. tagged_bones w a = Some S \<longrightarrow> set (iter S) = S"
    and "\<forall>n. is_tagged w a n \<longrightarrow> \<not> in_reach w a ev n"
  shows "chosen_bone iter ev w = None"
proof (cases "tagged_bones w a")
  case None
  with assms(1) show ?thesis
    by (simp add: chosen_bone_def find_closest_def scan_init_def)
next
  case (Some S)
  from assms(2) Some have it: "set (iter S) = S" by simp
  from assms(3) Some have far: "\<forall>n \<in> S. \<not> in_reach w a ev n"
    by (simp add: is_tagged_def)
  from nearest_find_closest [OF Some, of ev iter] it far
  have "closest_bone (find_closest iter ev w a) = None"
    by (cases "closest_bone (find_closest iter ev w a)")
       (auto simp: nearest_so_far_def in_reach_def)
  with assms(1) show ?thesis by (simp add: chosen_bone_def)
qed

lemma scan_step_gizmo:
  "scan_step (w\<lparr>clay_magnet_gizmo_user := g\<rparr>) arm mp n st = scan_step w arm mp n st"
  by (simp add: scan_step_def Let_def split: option.splits prod.splits sum.splits)

lemma scan_gizmo:
  "scan (w\<lparr>clay_magnet_gizmo_user := g\<rparr>) arm mp xs st = scan w arm mp xs st"
  by (induction xs arbitrary: st) (simp_all add: scan_step_gizmo)

lemma find_closest_gizmo:
  "find_closest iter ev (w\<lparr>clay_magnet_gizmo_user := g\<rparr>) a = find_closest iter ev w a"
  by (simp add: find_closest_def scan_gizmo split: option.splits)

lemma studio_scan_two:
  "find_closest (\<lambda>_. [''hand'', ''spine''])
       \<lparr>mouse_region_x = 10, mouse_region_y = 0, shift = False\<rparr>
       (studio\<lparr>tagged_bones := [0 \<mapsto> {''spine'', ''hand''}]\<rparr>) 0
     = \<lparr>closest_bone = Some ''spine'', closest_dist = Some 10, printed = []\<rparr>"
  by (simp add: find_closest_def scan_step_def bone_center_def studio_simps flat_view_def
      mouse_pos_of_def vec2_sub_def vec2_length_x below_def scan_init_def)

lemma studio_far:
  "screen_dist (studio\<lparr>tagged_bones := [0 \<mapsto> {''hand''}]\<rparr>) 0
      \<lparr>mouse_region_x = 100, mouse_region_y = 0, shift = False\<rparr> ''hand'' = Some 70"
  by (simp add: screen_dist_def bone_center_def studio_simps flat_view_def
      mouse_pos_of_def vec2_sub_def vec2_length_x)

lemma studio_scan_near_hand:
  "find_closest (\<lambda>_. [''hand'', ''spine''])
       \<lparr>mouse_region_x = 25, mouse_region_y = 0, shift = s\<rparr>
       (studio\<lparr>tagged_bones := [0 \<mapsto> {''spine'', ''hand''}], clay_magnet_gizmo_user := g\<rparr>) 0
     = \<lparr>closest_bone = Some ''hand'', closest_dist = Some 5, printed = []\<rparr>"
  by (simp add: find_closest_def scan_step_def bone_center_def studio_simps flat_view_def
      mouse_pos_of_def vec2_sub_def vec2_length_x below_def scan_init_def)

lemma studio_scan_foot:
  "find_closest (\<lambda>_. [''foot''])
       \<lparr>mouse_region_x = - 20, mouse_region_y = 0, shift = False\<rparr>
       (studio\<lparr>tagged_bones := [0 \<mapsto> {''foot''}]\<rparr>) 0
     = \<lparr>closest_bone = Some ''foot'', closest_dist = Some 0,
        printed = [Custom_shape_messed_up ''foot'' AttributeError]\<rparr>"
  by (simp add: find_closest_def scan_step_def bone_center_def world_vertices_def
      studio_simps flat_view_def mouse_pos_of_def vec2_sub_def vec2_length_x below_def
      scan_init_def)

subsection \<open>What the scan prints\<close>

lemma printed_step_mono:
  "set (printed st) \<subseteq> set (printed (scan_step w arm mp n st))"
  by (auto simp: scan_step_def Let_def split: option.splits prod.splits sum.splits)

lemma printed_scan_mono:
  "set (printed st) \<subseteq> set (printed (scan w arm mp xs st))"
proof (induction xs arbitrary: st)
  case Nil
  show ?case by simp
next
  case (Cons x xs)
  from printed_step_mono [of st w arm mp x] Cons.IH [of "scan_step w arm mp x st"]
  show ?case by auto
qed

lemma printed_scan_member:
  assumes "n \<in> set xs" and "\<And>st. L \<in> set (printed (scan_step w arm mp n st))"
  shows "L \<in> set (printed (scan w arm mp xs st))"
  using assms(1)
proof (induction xs arbitrary: st)
  case Nil
  then show ?case by simp
next
  case (Cons x xs)
  show ?case
  proof (cases "x = n")
    case True
    from assms(2) [of st] printed_scan_mono [of "scan_step w arm mp n st" w arm mp xs] True
    show ?thesis by auto
  next
    case False
    with Cons.prems have "n \<in> set xs" by simp
    from Cons.IH [OF this] show ?thesis by simp
  qed
qed

lemma shape_failure_printed:
  assumes "bones arm n = Some b" and "custom_shape b = Some mesh"
    and "world_vertices arm mesh = Inl e"
  shows "Custom_shape_messed_up n e \<in> set (printed (scan_step w arm mp n st))"
  using assms
  by (auto simp: scan_step_def bone_center_def Let_def split: option.splits sum.splits)

lemma shape_failure_projection_printed:
  assumes "bones arm n = Some b" and "custom_shape b = Some mesh"
    and "world_vertices arm mesh = Inl e" and "location_3d_to_region_2d w (head b) = Inl e'"
  shows "Skipped n e' \<in> set (printed (scan_step w arm mp n st))"
  using assms
  by (auto simp: scan_step_def bone_center_def Let_def split: option.splits sum.splits)

lemma shape_failure_dist:
  assumes "bones (objects w a) n = Some b" and "custom_shape b = Some mesh"
    and "world_vertices (objects w a) mesh = Inl e"
  shows "screen_dist w a ev n
           = (case location_3d_to_region_2d w (head b) of
                Inl e' \<Rightarrow> None
              | Inr None \<Rightarrow> None
              | Inr (Some screen_pos) \<Rightarrow>
                  Some (vec2_length (vec2_sub (mouse_pos_of ev) screen_pos)))"
  using assms by (simp add: screen_dist_def bone_center_def)

lemma in_reach_chosen:
  assumes "active w = Some a" and "tagged_bones w a = Some S" and "set (iter S) = S"
    and "m \<in> S" and "screen_dist w a ev m = Some d" and "d < hitbox_size (preferences w)"
  shows "\<exists>c d'. chosen_bone iter ev w = Some c \<and> c \<in> S \<and> screen_dist w a ev c = Some d' \<and> d' \<le> d"
proof -
  from nearest_find_closest [OF assms(2), of ev iter] assms(3,4,5,6)
  have "\<exists>c d'. closest_bone (find_closest iter ev w a) = Some c \<and> c \<in> S \<and>
          screen_dist w a ev c = Some d' \<and> d' \<le> d"
    by (cases "closest_bone (find_closest iter ev w a)")
       (auto simp: nearest_so_far_def in_reach_def)
  with assms(1) show ?thesis by (simp add: chosen_bone_def)
qed

lemma chosen_has_dist:
  assumes "active w = Some a" and "chosen_bone iter ev w = Some n"
  shows "\<exists>d. screen_dist w a ev n = Some d"
proof -
  from assms have c: "closest_bone (find_closest iter ev w a) = Some n"
    by (simp add: chosen_bone_def)
  then obtain S where S: "tagged_bones w a = Some S"
    by (cases "tagged_bones w a") (simp_all add: find_closest_def scan_init_def)
  from nearest_find_closest [OF S, of ev iter] c show ?thesis
    by (auto simp: nearest_so_far_def)
qed

lemma studio_scan_foot_unloaded:
  "find_closest (\<lambda>_. [''foot''])
       \<lparr>mouse_region_x = - 20, mouse_region_y = 0, shift = False\<rparr>
       (studio\<lparr>tagged_bones := [0 \<mapsto> {''foot''}],
               location_3d_to_region_2d := unloaded_view\<rparr>) 0
     = \<lparr>closest_bone = None, closest_dist = None,
        printed = [Custom_shape_messed_up ''foot'' AttributeError,
                   Skipped ''foot'' AttributeError]\<rparr>"
  by (simp add: find_closest_def scan_step_def bone_center_def world_vertices_def
      studio_simps unloaded_view_def mouse_pos_of_def scan_init_def)

section \<open>Tag registry\<close>

text \<open>
  C5. Running the tag command and then the untag command on the same selection, on an active
  armature: a name is tagged afterwards exactly when it was tagged before and is not in the
  selection. The membership from before the tag command is thus restored for every name
  that was not both selected and already tagged; a selected name that was already tagged
  ends untagged.
\<close>

theorem tag_then_untag:
  assumes "active w = Some a" and "obj_type (objects w a) = ARMATURE"
  shows "is_tagged (fst (untag_bone_execute (fst (tag_bone_execute w)))) a n
           = (is_tagged w a n \<and> n \<notin> set (selected_or_empty w))"
proof -
  let ?w1 = "fst (tag_bone_execute w)"
  have a1: "active ?w1 = Some a" and t1: "obj_type (objects ?w1 a) = ARMATURE"
    and s1: "selected_or_empty ?w1 = selected_or_empty w"
    using assms tag_frame [of w] by (simp_all add: selected_or_empty_def)
  show ?thesis
    using is_tagged_untag [OF a1 t1, of n] is_tagged_tag [OF assms, of n] s1 by auto
qed

theorem tag_then_untag_witness:
  "is_tagged (fst (untag_bone_execute (fst (tag_bone_execute (studio\<lparr>tagged_bones := [0 \<mapsto> {''hand''}]\<rparr>))))) 0 ''hand''
   \<and> \<not> is_tagged (fst (untag_bone_execute (fst (tag_bone_execute (studio\<lparr>tagged_bones := [0 \<mapsto> {''hand''}]\<rparr>))))) 0 ''spine''"
  using tag_then_untag [of "studio\<lparr>tagged_bones := [0 \<mapsto> {''hand''}]\<rparr>" 0 "''hand''"]
    tag_then_untag [of "studio\<lparr>tagged_bones := [0 \<mapsto> {''hand''}]\<rparr>" 0 "''spine''"]
  by (simp add: studio_simps is_tagged_def selected_or_empty_def)

text \<open>As stated, the round trip fails for a selected bone that was tagged before: \<open>spine\<close> is
  tagged, then tagged again and untagged, and is no longer tagged.\<close>

theorem tag_then_untag_counterexample:
  "is_tagged (studio\<lparr>tagged_bones := [0 \<mapsto> {''spine''}]\<rparr>) 0 ''spine'' \<and>
   \<not> is_tagged (fst (untag_bone_execute (fst (tag_bone_execute
         (studio\<lparr>tagged_bones := [0 \<mapsto> {''spine''}]\<rparr>))))) 0 ''spine''"
  by (simp add: studio_simps is_tagged_def tag_bone_execute_def untag_bone_execute_def
      selected_or_empty_def Let_def)


text \<open>
  C6. After the filter command on an active armature that has an entry in the registry, the
  armature has the same bones, and a bone is selected exactly when its name is in the tag
  set at call time. With no entry for the armature the command changes nothing.
\<close>

theorem filter_selects_tagged:
  assumes "active w = Some a" and "obj_type (objects w a) = ARMATURE"
  shows "(\<forall>S. tagged_bones w a = Some S \<longrightarrow>
            dom (bones (objects (fst (find_tagged_execute w)) a)) = dom (bones (objects w a)) \<and>
            (\<forall>n. bone_selected (fst (find_tagged_execute w)) a n
                   = (n \<in> S \<and> n \<in> dom (bones (objects w a))))) \<and>
         (tagged_bones w a = None \<longrightarrow> find_tagged_execute w = (w, FINISHED))"
  using assms
  by (auto simp: find_tagged_execute_def set_bones_def select_tagged_def bone_selected_def
      dom_def split: option.splits)

theorem filter_selects_tagged_witness:
  "bone_selected (fst (find_tagged_execute (studio\<lparr>tagged_bones := [0 \<mapsto> {''hand''}]\<rparr>))) 0 ''hand'' \<and>
   \<not> bone_selected (fst (find_tagged_execute (studio\<lparr>tagged_bones := [0 \<mapsto> {''hand''}]\<rparr>))) 0 ''spine'' \<and>
   find_tagged_execute studio = (studio, FINISHED)"
  using filter_selects_tagged [of "studio\<lparr>tagged_bones := [0 \<mapsto> {''hand''}]\<rparr>" 0]
    filter_selects_tagged [of studio 0]
  by (simp add: studio_simps)

text \<open>As stated for every tag-set state, the claim fails where the armature has no entry:
  the selected bone \<open>spine\<close> is not tagged and stays selected.\<close>

theorem filter_selects_tagged_counterexample:
  "bone_selected (fst (find_tagged_execute studio)) 0 ''spine'' \<and> \<not> is_tagged studio 0 ''spine''"
  by (simp add: studio_simps find_tagged_execute_def bone_selected_def is_tagged_def)

text \<open>
  C10. The tag command on an active armature with no entry in the registry and an empty
  selection inserts an empty tag set for it and finishes; the filter command run next
  finishes and leaves no bone of the armature selected.
\<close>

theorem tag_with_empty_selection:
  assumes "active w = Some a" and "obj_type (objects w a) = ARMATURE"
    and "tagged_bones w a = None"
    and "selected_pose_bones w = None \<or> selected_pose_bones w = Some []"
  shows "tag_bone_execute w = (w\<lparr>tagged_bones := (tagged_bones w)(a \<mapsto> {})\<rparr>, FINISHED) \<and>
         snd (find_tagged_execute (fst (tag_bone_execute w))) = FINISHED \<and>
         (\<forall>n. \<not> bone_selected (fst (find_tagged_execute (fst (tag_bone_execute w)))) a n)"
proof -
  have t: "tag_bone_execute w = (w\<lparr>tagged_bones := (tagged_bones w)(a \<mapsto> {})\<rparr>, FINISHED)"
    using assms by (auto simp: tag_bone_execute_def selected_or_empty_def Let_def)
  have f: "snd (find_tagged_execute (w\<lparr>tagged_bones := (tagged_bones w)(a \<mapsto> {})\<rparr>)) = FINISHED"
    using assms by (simp add: find_tagged_execute_def)
  have s: "\<not> bone_selected (fst (find_tagged_execute (w\<lparr>tagged_bones := (tagged_bones w)(a \<mapsto> {})\<rparr>))) a n" for n
    using assms
    by (simp add: find_tagged_execute_def set_bones_def select_tagged_def bone_selected_def
        split: option.splits)
  show ?thesis using t f s by simp
qed

theorem tag_with_empty_selection_witness:
  "tag_bone_execute (studio\<lparr>selected_pose_bones := Some []\<rparr>)
     = (studio\<lparr>selected_pose_bones := Some [], tagged_bones := [0 \<mapsto> {}]\<rparr>, FINISHED) \<and>
   \<not> bone_selected (fst (find_tagged_execute (fst (tag_bone_execute
        (studio\<lparr>selected_pose_bones := Some []\<rparr>))))) 0 ''spine''"
proof -
  let ?w = "studio\<lparr>selected_pose_bones := Some []\<rparr>"
  have h: "active ?w = Some 0" "obj_type (objects ?w 0) = ARMATURE" "tagged_bones ?w 0 = None"
    "selected_pose_bones ?w = None \<or> selected_pose_bones ?w = Some []"
    by (simp_all add: studio_def rig_def)
  have e: "(tagged_bones ?w)(0 \<mapsto> {}) = [0 \<mapsto> {}]"
    by (simp add: studio_def)
  note r = tag_with_empty_selection [OF h, unfolded e]
  from r have 1: "tag_bone_execute ?w = (?w\<lparr>tagged_bones := [0 \<mapsto> {}]\<rparr>, FINISHED)"
    by (rule conjunct1)
  from r have 2: "\<not> bone_selected (fst (find_tagged_execute (fst (tag_bone_execute ?w)))) 0 ''spine''"
    by blast
  show ?thesis using 1 2 by (rule conjI)
qed

section \<open>Invalid contexts\<close>

text \<open>
  C8. The tag, untag and filter commands, run with no active object or with an active object
  that is not an armature, and the switch-to-pose-mode command, run with no armature among
  the selected objects, report an error, return the cancelled status and change nothing
  else: the resulting state is the initial one with the report appended.
\<close>

theorem invalid_context_cancels:
  "((active w = None \<or> (\<exists>a. active w = Some a \<and> obj_type (objects w a) \<noteq> ARMATURE)) \<longrightarrow>
      tag_bone_execute w
        = (w\<lparr>reports := reports w @ [(ERROR, ''Select an armature first!'')]\<rparr>, CANCELLED) \<and>
      untag_bone_execute w
        = (w\<lparr>reports := reports w @ [(ERROR, ''Need an armature, buddy!'')]\<rparr>, CANCELLED) \<and>
      find_tagged_execute w
        = (w\<lparr>reports := reports w @ [(ERROR, ''Pick an armature first!'')]\<rparr>, CANCELLED)) \<and>
   ((\<forall>obj \<in> set (selected_objects w). obj_type (objects w obj) \<noteq> ARMATURE) \<longrightarrow>
      switch_pose_mode_execute w
        = (w\<lparr>reports := reports w @ [(ERROR, ''Select some armatures first!'')]\<rparr>, CANCELLED))"
  by (auto simp: tag_bone_execute_def untag_bone_execute_def find_tagged_execute_def
      switch_pose_mode_execute_def cancel_def filter_empty_conv)

theorem invalid_context_cancels_witness:
  "tag_bone_execute (studio\<lparr>active := Some 1, selected_objects := [1]\<rparr>)
     = (studio\<lparr>active := Some 1, selected_objects := [1],
               reports := [(ERROR, ''Select an armature first!'')]\<rparr>, CANCELLED) \<and>
   untag_bone_execute (studio\<lparr>active := Some 1, selected_objects := [1]\<rparr>)
     = (studio\<lparr>active := Some 1, selected_objects := [1],
               reports := [(ERROR, ''Need an armature, buddy!'')]\<rparr>, CANCELLED) \<and>
   find_tagged_execute (studio\<lparr>active := Some 1, selected_objects := [1]\<rparr>)
     = (studio\<lparr>active := Some 1, selected_objects := [1],
               reports := [(ERROR, ''Pick an armature first!'')]\<rparr>, CANCELLED) \<and>
   switch_pose_mode_execute (studio\<lparr>active := Some 1, selected_objects := [1]\<rparr>)
     = (studio\<lparr>active := Some 1, selected_objects := [1],
               reports := [(ERROR, ''Select some armatures first!'')]\<rparr>, CANCELLED)"
  using invalid_context_cancels [of "studio\<lparr>active := Some 1, selected_objects := [1]\<rparr>"]
  by (simp add: studio_simps)

text \<open>The switch command does not look at the active object: with a mesh active and an armature
  among the selected objects it finishes, reports nothing and makes the armature active.\<close>

theorem invalid_context_cancels_counterexample:
  "active (studio\<lparr>active := Some 1, selected_objects := [1, 0]\<rparr>) = Some 1 \<and>
   obj_type (objects (studio\<lparr>active := Some 1, selected_objects := [1, 0]\<rparr>) 1) \<noteq> ARMATURE \<and>
   snd (switch_pose_mode_execute (studio\<lparr>active := Some 1, selected_objects := [1, 0]\<rparr>)) = FINISHED \<and>
   reports (fst (switch_pose_mode_execute (studio\<lparr>active := Some 1, selected_objects := [1, 0]\<rparr>))) = [] \<and>
   active (fst (switch_pose_mode_execute (studio\<lparr>active := Some 1, selected_objects := [1, 0]\<rparr>))) = Some 0"
  by (simp add: studio_simps switch_pose_mode_execute_def mode_set_POSE_def Let_def)

section \<open>Preference store\<close>

text \<open>
  C9. The preference class declares exactly two settings, \<open>hitbox_size\<close> and
  \<open>restrict_pose_mode\<close>, and its \<open>draw\<close> method lays out exactly these two.
\<close>

theorem preferences_two_settings:
  "map fst CLAYMAGNET_Preferences_annotations = [''hitbox_size'', ''restrict_pose_mode''] \<and>
   CLAYMAGNET_Preferences_draw = map fst CLAYMAGNET_Preferences_annotations \<and>
   length CLAYMAGNET_Preferences_annotations = 2"
  by (simp add: CLAYMAGNET_Preferences_annotations_def CLAYMAGNET_Preferences_draw_def)

text \<open>The class does not declare three settings.\<close>

theorem preferences_three_settings_counterexample:
  "length CLAYMAGNET_Preferences_annotations \<noteq> 3"
  by (simp add: CLAYMAGNET_Preferences_annotations_def)

section \<open>Proximity pick: the chosen bone\<close>

text \<open>
  C1. When the scan runs over the tag set of the active armature and chooses a bone, the bone
  is tagged, its projected screen distance to the pointer is below the hitbox radius, and
  that distance is minimal among all tagged bones of the armature whose projection
  succeeds. The order in which the set is iterated is arbitrary.
\<close>

theorem pick_is_nearest:
  assumes "active w = Some a" and "tagged_bones w a = Some S" and "set (iter S) = S"
    and "chosen_bone iter ev w = Some n"
  shows "n \<in> S \<and>
         (\<exists>d. screen_dist w a ev n = Some d \<and> d < hitbox_size (preferences w) \<and>
              (\<forall>m \<in> S. \<forall>e. screen_dist w a ev m = Some e \<longrightarrow> d \<le> e))"
proof -
  from assms(1,4) have c: "closest_bone (find_closest iter ev w a) = Some n"
    by (simp add: chosen_bone_def)
  from nearest_find_closest [OF assms(2), of ev iter] c assms(3)
  show ?thesis
    by (auto simp: nearest_so_far_def)
qed

theorem pick_is_nearest_witness:
  "chosen_bone (\<lambda>_. [''hand'', ''spine''])
       \<lparr>mouse_region_x = 10, mouse_region_y = 0, shift = False\<rparr>
       (studio\<lparr>tagged_bones := [0 \<mapsto> {''spine'', ''hand''}]\<rparr>) = Some ''spine'' \<and>
   (\<exists>d. screen_dist (studio\<lparr>tagged_bones := [0 \<mapsto> {''spine'', ''hand''}]\<rparr>) 0
          \<lparr>mouse_region_x = 10, mouse_region_y = 0, shift = False\<rparr> ''spine'' = Some d \<and>
        d < hitbox_size (preferences (studio\<lparr>tagged_bones := [0 \<mapsto> {''spine'', ''hand''}]\<rparr>)) \<and>
        (\<forall>m \<in> {''spine'', ''hand''}. \<forall>e.
            screen_dist (studio\<lparr>tagged_bones := [0 \<mapsto> {''spine'', ''hand''}]\<rparr>) 0
              \<lparr>mouse_region_x = 10, mouse_region_y = 0, shift = False\<rparr> m = Some e \<longrightarrow> d \<le> e))"
proof -
  let ?w = "studio\<lparr>tagged_bones := [0 \<mapsto> {''spine'', ''hand''}]\<rparr>"
  let ?ev = "\<lparr>mouse_region_x = 10, mouse_region_y = 0, shift = False\<rparr>"
  let ?iter = "\<lambda>_::string set. [''hand'', ''spine'']"
  have h1: "active ?w = Some 0" by (simp add: studio_def)
  have h2: "tagged_bones ?w 0 = Some {''spine'', ''hand''}" by (simp add: studio_def)
  have h3: "set (?iter {''spine'', ''hand''}) = {''spine'', ''hand''}" by auto
  have h4: "chosen_bone ?iter ?ev ?w = Some ''spine''"
    using studio_scan_two by (simp add: chosen_bone_def studio_def)
  from pick_is_nearest [OF h1 h2 h3 h4] h4 show ?thesis by blast
qed


text \<open>
  C2. When no tagged bone of the active armature has a projected distance below the hitbox
  radius, which includes the case of no registry entry for the armature and of no active
  object, the pick leaves every object (hence the selection flag of every bone), the
  active object and the registry as they were, starts no translate interaction and
  finishes.
\<close>

theorem pick_nothing_in_reach:
  assumes "\<forall>a S. active w = Some a \<and> tagged_bones w a = Some S \<longrightarrow> set (iter S) = S"
    and "\<forall>a n. active w = Some a \<and> is_tagged w a n \<longrightarrow> \<not> in_reach w a ev n"
  shows "objects (fst (select_transform_invoke iter ev w)) = objects w \<and>
         translate_invoked (fst (select_transform_invoke iter ev w)) = translate_invoked w \<and>
         active (fst (select_transform_invoke iter ev w)) = active w \<and>
         tagged_bones (fst (select_transform_invoke iter ev w)) = tagged_bones w \<and>
         snd (select_transform_invoke iter ev w) = FINISHED"
proof (cases "active w")
  case None
  then show ?thesis by (simp add: select_transform_invoke_def)
next
  case (Some a)
  from assms Some have "chosen_bone iter ev w = None"
    by (intro nothing_in_reach_chosen [of w a]) auto
  with Some show ?thesis
    by (simp add: invoke_unfold apply_pick_def)
qed

theorem pick_nothing_in_reach_witness:
  "objects (fst (select_transform_invoke (\<lambda>_. [''hand''])
       \<lparr>mouse_region_x = 100, mouse_region_y = 0, shift = False\<rparr>
       (studio\<lparr>tagged_bones := [0 \<mapsto> {''hand''}]\<rparr>))) = objects studio \<and>
   translate_invoked (fst (select_transform_invoke (\<lambda>_. [''hand''])
       \<lparr>mouse_region_x = 100, mouse_region_y = 0, shift = False\<rparr>
       (studio\<lparr>tagged_bones := [0 \<mapsto> {''hand''}]\<rparr>))) = 0"
proof -
  let ?w = "studio\<lparr>tagged_bones := [0 \<mapsto> {''hand''}]\<rparr>"
  let ?ev = "\<lparr>mouse_region_x = 100, mouse_region_y = 0, shift = False\<rparr>"
  let ?iter = "\<lambda>_::string set. [''hand'']"
  have h1: "\<forall>a S. active ?w = Some a \<and> tagged_bones ?w a = Some S \<longrightarrow> set (?iter S) = S"
    by (auto simp: studio_def)
  have h2: "\<forall>a n. active ?w = Some a \<and> is_tagged ?w a n \<longrightarrow> \<not> in_reach ?w a ?ev n"
    using studio_far by (auto simp: is_tagged_def in_reach_def studio_def)
  from pick_nothing_in_reach [OF h1 h2] show ?thesis
    by (simp add: studio_def)
qed


section \<open>Proximity pick: selection and transform\<close>

text \<open>
  C3. When a bone is chosen: with shift held, every bone selected before the pick, in any
  object, is selected after it, and so is the chosen bone; without shift, a bone of the
  armature is selected after the pick exactly when it is the chosen one.
\<close>

theorem pick_selection:
  assumes "active w = Some a" and "chosen_bone iter ev w = Some n"
  shows "(shift ev \<longrightarrow>
            (\<forall>b m. bone_selected w b m \<longrightarrow>
                bone_selected (fst (select_transform_invoke iter ev w)) b m) \<and>
            bone_selected (fst (select_transform_invoke iter ev w)) a n) \<and>
         (\<not> shift ev \<longrightarrow>
            (\<forall>m. bone_selected (fst (select_transform_invoke iter ev w)) a m = (m = n)))"
proof -
  from chosen_exists [OF assms] obtain b where b: "bones (objects w a) n = Some b" ..
  show ?thesis
    using assms b
    by (auto simp: invoke_unfold apply_pick_def set_bones_def select_bone_def
        deselect_others_def start_translate_def bone_selected_def Let_def
        split: option.splits)
qed

theorem pick_selection_witness:
  "bone_selected (fst (select_transform_invoke (\<lambda>_. [''hand'', ''spine''])
       \<lparr>mouse_region_x = 25, mouse_region_y = 0, shift = True\<rparr>
       (studio\<lparr>tagged_bones := [0 \<mapsto> {''spine'', ''hand''}]\<rparr>))) 0 ''spine'' \<and>
   bone_selected (fst (select_transform_invoke (\<lambda>_. [''hand'', ''spine''])
       \<lparr>mouse_region_x = 25, mouse_region_y = 0, shift = True\<rparr>
       (studio\<lparr>tagged_bones := [0 \<mapsto> {''spine'', ''hand''}]\<rparr>))) 0 ''hand'' \<and>
   bone_selected (fst (select_transform_invoke (\<lambda>_. [''hand'', ''spine''])
       \<lparr>mouse_region_x = 25, mouse_region_y = 0, shift = False\<rparr>
       (studio\<lparr>tagged_bones := [0 \<mapsto> {''spine'', ''hand''}]\<rparr>))) 0 ''hand'' \<and>
   \<not> bone_selected (fst (select_transform_invoke (\<lambda>_. [''hand'', ''spine''])
       \<lparr>mouse_region_x = 25, mouse_region_y = 0, shift = False\<rparr>
       (studio\<lparr>tagged_bones := [0 \<mapsto> {''spine'', ''hand''}]\<rparr>))) 0 ''spine''"
proof -
  let ?w = "studio\<lparr>tagged_bones := [0 \<mapsto> {''spine'', ''hand''}]\<rparr>"
  let ?iter = "\<lambda>_::string set. [''hand'', ''spine'']"
  let ?ev = "\<lambda>s. \<lparr>mouse_region_x = 25, mouse_region_y = 0, shift = s\<rparr>"
  have a: "active ?w = Some 0" by (simp add: studio_def)
  have c: "chosen_bone ?iter (?ev s) ?w = Some ''hand''" for s
    using studio_scan_near_hand [of s False] by (simp add: chosen_bone_def studio_def)
  have before: "bone_selected ?w 0 ''spine''"
    by (simp add: bone_selected_def studio_simps)
  have diff: "''spine'' \<noteq> ''hand''" by simp
  from pick_selection [OF a c [of True]] before
  have 1: "bone_selected (fst (select_transform_invoke ?iter (?ev True) ?w)) 0 ''spine''"
    and 2: "bone_selected (fst (select_transform_invoke ?iter (?ev True) ?w)) 0 ''hand''"
    by simp_all
  from pick_selection [OF a c [of False]] diff
  have 3: "bone_selected (fst (select_transform_invoke ?iter (?ev False) ?w)) 0 ''hand''"
    and 4: "\<not> bone_selected (fst (select_transform_invoke ?iter (?ev False) ?w)) 0 ''spine''"
    by simp_all
  from 1 2 3 4 show ?thesis by blast
qed

text \<open>
  C4. For a pick without shift that chooses a bone, the translate interaction is started once
  when the gizmo-user flag is off and not at all when it is on; the objects after the
  pick, hence the selection, are the same for both values of the flag.
\<close>

theorem pick_gizmo_flag:
  assumes "active w = Some a" and "chosen_bone iter ev w = Some n" and "\<not> shift ev"
  shows "translate_invoked (fst (select_transform_invoke iter ev w))
           = (if clay_magnet_gizmo_user w then translate_invoked w
              else Suc (translate_invoked w)) \<and>
         objects (fst (select_transform_invoke iter ev (w\<lparr>clay_magnet_gizmo_user := True\<rparr>)))
           = objects (fst (select_transform_invoke iter ev (w\<lparr>clay_magnet_gizmo_user := False\<rparr>)))"
proof -
  have c: "chosen_bone iter ev (w\<lparr>clay_magnet_gizmo_user := g\<rparr>) = Some n" for g
    using assms(1,2) by (simp add: chosen_bone_def find_closest_gizmo)
  have o: "objects (fst (select_transform_invoke iter ev (w\<lparr>clay_magnet_gizmo_user := g\<rparr>)))
             = (objects w)(a := (objects w a)\<lparr>bones :=
                  deselect_others n (select_bone n (bones (objects w a)))\<rparr>)" for g
    using assms(1,3) c [of g]
    by (simp add: invoke_unfold apply_pick_def set_bones_def start_translate_def Let_def)
  have t: "translate_invoked (fst (select_transform_invoke iter ev w))
             = (if clay_magnet_gizmo_user w then translate_invoked w
                else Suc (translate_invoked w))"
    using assms
    by (simp add: invoke_unfold apply_pick_def set_bones_def start_translate_def Let_def)
  show ?thesis using t o [of True] o [of False] by simp
qed


theorem pick_gizmo_flag_witness:
  "translate_invoked (fst (select_transform_invoke (\<lambda>_. [''hand'', ''spine''])
       \<lparr>mouse_region_x = 25, mouse_region_y = 0, shift = False\<rparr>
       (studio\<lparr>tagged_bones := [0 \<mapsto> {''spine'', ''hand''}],
               clay_magnet_gizmo_user := False\<rparr>))) = 1 \<and>
   translate_invoked (fst (select_transform_invoke (\<lambda>_. [''hand'', ''spine''])
       \<lparr>mouse_region_x = 25, mouse_region_y = 0, shift = False\<rparr>
       (studio\<lparr>tagged_bones := [0 \<mapsto> {''spine'', ''hand''}],
               clay_magnet_gizmo_user := True\<rparr>))) = 0"
proof -
  let ?w = "\<lambda>g. studio\<lparr>tagged_bones := [0 \<mapsto> {''spine'', ''hand''}],
                        clay_magnet_gizmo_user := g\<rparr>"
  let ?iter = "\<lambda>_::string set. [''hand'', ''spine'']"
  let ?ev = "\<lparr>mouse_region_x = 25, mouse_region_y = 0, shift = False\<rparr>"
  have a: "active (?w g) = Some 0" for g by (simp add: studio_def)
  have c: "chosen_bone ?iter ?ev (?w g) = Some ''hand''" for g
    using studio_scan_near_hand [of False g] by (simp add: chosen_bone_def studio_def)
  have p: "\<not> shift ?ev" by simp
  from pick_gizmo_flag [OF a c p, of False]
  have 1: "translate_invoked (fst (select_transform_invoke ?iter ?ev (?w False))) = 1"
    by (simp add: studio_def)
  from pick_gizmo_flag [OF a c p, of True]
  have 2: "translate_invoked (fst (select_transform_invoke ?iter ?ev (?w True))) = 0"
    by (simp add: studio_def)
  from 1 2 show ?thesis by blast
qed

section \<open>Proximity pick: failures while reading a candidate\<close>

text \<open>
  C7. When reading the custom shape of a tagged bone raises, the exception is caught in
  that iteration and printed, and the candidate is not skipped on that account: its
  anchor is the head of the bone, so its distance is the one of the projected head. If
  that distance is below the hitbox radius, a bone is chosen whose distance is not
  larger, and the candidate itself is chosen when it is strictly nearer than every other
  tagged bone. The candidate is skipped only where its head does not project; where the
  projection call raises, the outer handler prints that exception as well and the
  candidate is not chosen. The scan goes on over the remaining names: whenever any tagged
  bone is in reach, some bone is chosen.
\<close>

theorem custom_shape_failure_keeps_candidate:
  assumes "active w = Some a" and "tagged_bones w a = Some S" and "set (iter S) = S"
    and "n \<in> S" and "bones (objects w a) n = Some b" and "custom_shape b = Some mesh"
    and "world_vertices (objects w a) mesh = Inl e"
  shows "Custom_shape_messed_up n e \<in> set (printed (find_closest iter ev w a)) \<and>
         screen_dist w a ev n
           = (case location_3d_to_region_2d w (head b) of
                Inl e' \<Rightarrow> None
              | Inr None \<Rightarrow> None
              | Inr (Some screen_pos) \<Rightarrow>
                  Some (vec2_length (vec2_sub (mouse_pos_of ev) screen_pos))) \<and>
         (\<forall>d. screen_dist w a ev n = Some d \<and> d < hitbox_size (preferences w) \<longrightarrow>
              (\<exists>c d'. chosen_bone iter ev w = Some c \<and> screen_dist w a ev c = Some d' \<and> d' \<le> d)) \<and>
         (\<forall>d. screen_dist w a ev n = Some d \<and> d < hitbox_size (preferences w) \<and>
              (\<forall>m \<in> S. m \<noteq> n \<longrightarrow> (\<forall>d'. screen_dist w a ev m = Some d' \<longrightarrow> d < d')) \<longrightarrow>
              chosen_bone iter ev w = Some n) \<and>
         (\<forall>e'. location_3d_to_region_2d w (head b) = Inl e' \<longrightarrow>
              Skipped n e' \<in> set (printed (find_closest iter ev w a)) \<and>
              chosen_bone iter ev w \<noteq> Some n) \<and>
         (\<forall>m \<in> S. in_reach w a ev m \<longrightarrow> chosen_bone iter ev w \<noteq> None)"
proof -
  have n_it: "n \<in> set (iter S)" using assms(3,4) by simp
  have fc: "find_closest iter ev w a
              = scan w (objects w a) (mouse_pos_of ev) (iter S) scan_init"
    using assms(2) by (simp add: find_closest_def)
  have 1: "Custom_shape_messed_up n e \<in> set (printed (find_closest iter ev w a))"
    unfolding fc
    by (rule printed_scan_member [OF n_it]) (rule shape_failure_printed [OF assms(5,6,7)])
  note 2 = shape_failure_dist [OF assms(5,6,7), of ev]
  have 3: "\<exists>c d'. chosen_bone iter ev w = Some c \<and> screen_dist w a ev c = Some d' \<and> d' \<le> d"
    if "screen_dist w a ev n = Some d" and "d < hitbox_size (preferences w)" for d
    using in_reach_chosen [where iter = iter, OF assms(1,2,3,4) that] by blast
  have 4: "chosen_bone iter ev w = Some n"
    if d: "screen_dist w a ev n = Some d" "d < hitbox_size (preferences w)"
      and far: "\<forall>m \<in> S. m \<noteq> n \<longrightarrow> (\<forall>d'. screen_dist w a ev m = Some d' \<longrightarrow> d < d')" for d
  proof -
    from in_reach_chosen [where iter = iter, OF assms(1,2,3,4) d]
    obtain c d' where c: "chosen_bone iter ev w = Some c" "c \<in> S"
      "screen_dist w a ev c = Some d'" "d' \<le> d" by blast
    have "c = n"
    proof (rule ccontr)
      assume "c \<noteq> n"
      with far c(2,3) have "d < d'" by blast
      with c(4) show False by simp
    qed
    with c(1) show ?thesis by simp
  qed
  have 5: "Skipped n e' \<in> set (printed (find_closest iter ev w a)) \<and>
           chosen_bone iter ev w \<noteq> Some n"
    if p: "location_3d_to_region_2d w (head b) = Inl e'" for e'
  proof
    show "Skipped n e' \<in> set (printed (find_closest iter ev w a))"
      unfolding fc
      by (rule printed_scan_member [OF n_it])
         (rule shape_failure_projection_printed [OF assms(5,6,7) p])
    from 2 p have "screen_dist w a ev n = None" by simp
    with chosen_has_dist [OF assms(1), of iter ev n]
    show "chosen_bone iter ev w \<noteq> Some n" by auto
  qed
  have 6: "chosen_bone iter ev w \<noteq> None" if "m \<in> S" and "in_reach w a ev m" for m
  proof -
    from that(2) obtain d where "screen_dist w a ev m = Some d" "d < hitbox_size (preferences w)"
      by (auto simp: in_reach_def split: option.splits)
    from in_reach_chosen [where iter = iter, OF assms(1,2,3) that(1) this] show ?thesis by auto
  qed
  from 1 2 3 4 5 6 show ?thesis by blast
qed


text \<open>
  On a host where the projection is callable the failing bone is chosen; on one where the
  projection raises it is printed twice and not chosen.
\<close>

theorem custom_shape_failure_keeps_candidate_witness:
  "Custom_shape_messed_up ''foot'' AttributeError
     \<in> set (printed (find_closest (\<lambda>_. [''foot''])
           \<lparr>mouse_region_x = - 20, mouse_region_y = 0, shift = False\<rparr>
           (studio\<lparr>tagged_bones := [0 \<mapsto> {''foot''}]\<rparr>) 0)) \<and>
   chosen_bone (\<lambda>_. [''foot''])
       \<lparr>mouse_region_x = - 20, mouse_region_y = 0, shift = False\<rparr>
       (studio\<lparr>tagged_bones := [0 \<mapsto> {''foot''}]\<rparr>) = Some ''foot'' \<and>
   Skipped ''foot'' AttributeError
     \<in> set (printed (find_closest (\<lambda>_. [''foot''])
           \<lparr>mouse_region_x = - 20, mouse_region_y = 0, shift = False\<rparr>
           (studio\<lparr>tagged_bones := [0 \<mapsto> {''foot''}],
                   location_3d_to_region_2d := unloaded_view\<rparr>) 0)) \<and>
   chosen_bone (\<lambda>_. [''foot''])
       \<lparr>mouse_region_x = - 20, mouse_region_y = 0, shift = False\<rparr>
       (studio\<lparr>tagged_bones := [0 \<mapsto> {''foot''}],
               location_3d_to_region_2d := unloaded_view\<rparr>) \<noteq> Some ''foot''"
proof -
  let ?w1 = "studio\<lparr>tagged_bones := [0 \<mapsto> {''foot''}]\<rparr>"
  let ?w2 = "studio\<lparr>tagged_bones := [0 \<mapsto> {''foot''}],
                    location_3d_to_region_2d := unloaded_view\<rparr>"
  let ?ev = "\<lparr>mouse_region_x = - 20, mouse_region_y = 0, shift = False\<rparr>"
  let ?iter = "\<lambda>_::string set. [''foot'']"
  have it: "set (?iter {''foot''}) = {''foot''}" and mem: "''foot'' \<in> {''foot''}"
    by simp_all
  have a1: "active ?w1 = Some 0" and t1: "tagged_bones ?w1 0 = Some {''foot''}"
    and b1: "bones (objects ?w1 0) ''foot'' = Some foot"
    and v1: "world_vertices (objects ?w1 0) crate = Inl AttributeError"
    by (simp_all add: studio_def rig_def world_vertices_def crate_def)
  have a2: "active ?w2 = Some 0" and t2: "tagged_bones ?w2 0 = Some {''foot''}"
    and b2: "bones (objects ?w2 0) ''foot'' = Some foot"
    and v2: "world_vertices (objects ?w2 0) crate = Inl AttributeError"
    by (simp_all add: studio_def rig_def world_vertices_def crate_def)
  have c: "custom_shape foot = Some crate" by (simp add: foot_def)
  have d1: "screen_dist ?w1 0 ?ev ''foot'' = Some 0"
    by (simp add: screen_dist_def bone_center_def world_vertices_def studio_simps flat_view_def
        mouse_pos_of_def vec2_sub_def vec2_length_x)
  have h1: "(0::real) < hitbox_size (preferences ?w1)" by (simp add: studio_def)
  have p2: "location_3d_to_region_2d ?w2 (head foot) = Inl AttributeError"
    by (simp add: unloaded_view_def)
  note r1 = custom_shape_failure_keeps_candidate
    [where iter = ?iter and ev = ?ev, OF a1 t1 it mem b1 c v1]
  note r2 = custom_shape_failure_keeps_candidate
    [where iter = ?iter and ev = ?ev, OF a2 t2 it mem b2 c v2]
  from r1 have 1: "Custom_shape_messed_up ''foot'' AttributeError
       \<in> set (printed (find_closest ?iter ?ev ?w1 0))"
    by (rule conjunct1)
  from r1 d1 h1 have 2: "chosen_bone ?iter ?ev ?w1 = Some ''foot''"
    by blast
  from r2 p2 have 3: "Skipped ''foot'' AttributeError
       \<in> set (printed (find_closest ?iter ?ev ?w2 0))"
    and 4: "chosen_bone ?iter ?ev ?w2 \<noteq> Some ''foot''"
    by blast+
  from 1 2 3 4 show ?thesis by blast
qed

text \<open>
  As stated, the claim fails on a host where the projection is callable: the only tagged
  bone has a custom shape whose reading raises, its head projects onto the pointer, and
  the pick chooses and selects it after printing the failure.
\<close>

theorem custom_shape_failure_skips_counterexample:
  "world_vertices rig crate = Inl AttributeError \<and>
   location_3d_to_region_2d (studio\<lparr>tagged_bones := [0 \<mapsto> {''foot''}]\<rparr>) (head foot)
     = Inr (Some (- 20, 0)) \<and>
   chosen_bone (\<lambda>_. [''foot''])
       \<lparr>mouse_region_x = - 20, mouse_region_y = 0, shift = False\<rparr>
       (studio\<lparr>tagged_bones := [0 \<mapsto> {''foot''}]\<rparr>) = Some ''foot'' \<and>
   stdout (fst (select_transform_invoke (\<lambda>_. [''foot''])
       \<lparr>mouse_region_x = - 20, mouse_region_y = 0, shift = False\<rparr>
       (studio\<lparr>tagged_bones := [0 \<mapsto> {''foot''}]\<rparr>)))
     = [Custom_shape_messed_up ''foot'' AttributeError, Picked ''foot'' False] \<and>
   bone_selected (fst (select_transform_invoke (\<lambda>_. [''foot''])
       \<lparr>mouse_region_x = - 20, mouse_region_y = 0, shift = False\<rparr>
       (studio\<lparr>tagged_bones := [0 \<mapsto> {''foot''}]\<rparr>))) 0 ''foot''"
proof -
  let ?w = "studio\<lparr>tagged_bones := [0 \<mapsto> {''foot''}]\<rparr>"
  have a: "active ?w = Some 0" by (simp add: studio_def)
  have v: "world_vertices rig crate = Inl AttributeError"
    by (simp add: world_vertices_def crate_def)
  have p: "location_3d_to_region_2d ?w (head foot) = Inr (Some (- 20, 0))"
    by (simp add: studio_def foot_def flat_view_def)
  have c: "chosen_bone (\<lambda>_. [''foot''])
       \<lparr>mouse_region_x = - 20, mouse_region_y = 0, shift = False\<rparr> ?w = Some ''foot''"
    using studio_scan_foot by (simp add: chosen_bone_def studio_def)
  have i: "select_transform_invoke (\<lambda>_. [''foot''])
       \<lparr>mouse_region_x = - 20, mouse_region_y = 0, shift = False\<rparr> ?w
     = (apply_pick \<lparr>mouse_region_x = - 20, mouse_region_y = 0, shift = False\<rparr> 0
          (Some ''foot'')
          (?w\<lparr>stdout := stdout ?w @ [Custom_shape_messed_up ''foot'' AttributeError]\<rparr>),
        FINISHED)"
    using invoke_unfold [OF a, of "\<lambda>_. [''foot'']"
        "\<lparr>mouse_region_x = - 20, mouse_region_y = 0, shift = False\<rparr>"] c studio_scan_foot
    by simp
  have s: "stdout (fst (select_transform_invoke (\<lambda>_. [''foot''])
       \<lparr>mouse_region_x = - 20, mouse_region_y = 0, shift = False\<rparr> ?w))
     = [Custom_shape_messed_up ''foot'' AttributeError, Picked ''foot'' False]"
    unfolding i
    by (simp add: apply_pick_def set_bones_def start_translate_def Let_def studio_def)
  have b: "bone_selected (fst (select_transform_invoke (\<lambda>_. [''foot''])
       \<lparr>mouse_region_x = - 20, mouse_region_y = 0, shift = False\<rparr> ?w)) 0 ''foot''"
    unfolding i
    by (simp add: apply_pick_def set_bones_def select_bone_def deselect_others_def
        start_translate_def bone_selected_def Let_def studio_simps)
  from v p c s b show ?thesis by blast
qed

end
